theory Spec2Isabelle
  imports Main
begin

section \<open>Identifiers and JavaScript truthiness\<close>

text \<open>
  Task ids, context ids and message ids are JavaScript strings.  An optional string
  (\<^verbatim>\<open>string | undefined\<close>) is a \<^typ>\<open>string option\<close>.  The operator
  \<^verbatim>\<open>a || b\<close> yields \<^verbatim>\<open>a\<close> when \<^verbatim>\<open>a\<close> is truthy and
  \<^verbatim>\<open>b\<close> otherwise; a string is truthy exactly when it is not empty, and
  \<^verbatim>\<open>undefined\<close> is falsy.
\<close>

definition truthy :: "string option \<Rightarrow> bool" where
  "truthy a = (case a of None \<Rightarrow> False | Some s \<Rightarrow> s \<noteq> [])"

text \<open>A value that was thrown: an \<^verbatim>\<open>Error\<close> object with its message, or anything else.\<close>

datatype thrown = JsError string | JsOther

section \<open>Data model\<close>

text \<open>
  Modelled from the spec: the lifecycle states of a task (the type \<^verbatim>\<open>TaskState\<close> is
  declared in the A2A SDK, outside the sources): submitted, working, input-required,
  completed, canceled, failed.
\<close>

datatype task_state = Submitted | Working | InputRequired | Completed | Canceled | Failed

text \<open>The string a state has inside a template literal.\<close>

fun state_name :: "task_state \<Rightarrow> string" where
  "state_name Submitted = ''submitted''"
| "state_name Working = ''working''"
| "state_name InputRequired = ''input-required''"
| "state_name Completed = ''completed''"
| "state_name Canceled = ''canceled''"
| "state_name Failed = ''failed''"

text \<open>
  \<^verbatim>\<open>AgentSettings\<close> (declared in \<^verbatim>\<open>types.ts\<close>, outside the sources): the debugging
  client builds it as \<^verbatim>\<open>{ kind: 'agent-settings', workspacePath }\<close>.
\<close>

record agent_settings =
  as_kind :: string
  workspacePath :: string

datatype role = User | Agent

record message =
  messageId :: string
  msg_role :: role
  msg_text :: "string list"
  msg_taskId :: "string option"
  msg_contextId :: "string option"
  coderAgent :: "agent_settings option"

text \<open>The block \<^verbatim>\<open>metadata.__persistedState\<close> of a stored task.\<close>

record persisted_state =
  ps_agentSettings :: agent_settings
  ps_taskState :: task_state

text \<open>
  The SDK's task object (\<^verbatim>\<open>SDKTask\<close>).  \<^verbatim>\<open>status.timestamp\<close> (the wall clock)
  and the always empty \<^verbatim>\<open>artifacts\<close> are left out.
\<close>

record sdk_task =
  sdk_id :: string
  sdk_contextId :: string
  sdk_state :: task_state
  sdk_persisted :: "persisted_state option"
  sdk_history :: "message list"

text \<open>
  A status-update event as the executor publishes it.  \<open>su_text\<close> is the text part of
  \<^verbatim>\<open>status.message\<close>, \<open>su_messageId\<close> its message id.
\<close>

record status_update =
  su_taskId :: string
  su_contextId :: string
  su_state :: task_state
  su_text :: "string option"
  su_messageId :: "string option"
  su_final :: bool

text \<open>An \<^verbatim>\<open>ExecutionEventBus\<close> is identified by a number.\<close>

type_synonym bus = nat

text \<open>
  Modelled from the spec: a tool-call record of \<^verbatim>\<open>task.ts\<close> (outside the sources):
  a call identifier, a name, arguments and a result status (pending, success, error,
  cancelled).  \<open>tc_reason\<close> keeps the reason given when the call was cancelled.
\<close>

datatype tool_status = Pending | Success | ToolError | Cancelled

record tool_call =
  callId :: string
  tc_name :: string
  tc_args :: string
  tc_status :: tool_status
  tc_reason :: "string option"

text \<open>
  Modelled from the spec: the fields of the class \<^verbatim>\<open>Task\<close> of \<^verbatim>\<open>task.ts\<close>
  (outside the sources) that the executor reads and writes.  \<open>geminiHistory\<close> is the
  history held by the task's model client.
\<close>

record task =
  task_id :: string
  task_contextId :: string
  taskState :: task_state
  eventBus :: "bus option"
  agentSettings :: agent_settings
  pendingTools :: "tool_call list"
  history :: "message list"
  geminiHistory :: "(string \<times> string list) list"

text \<open>Events of the model stream: a tool-call request, or any other event.\<close>

record tool_request =
  tr_callId :: string
  tr_name :: string
  tr_args :: string

datatype gemini_event = ToolCallRequest tool_request | Content string

text \<open>The calls on a task that leave no other mark in the model.\<close>

datatype call =
    AcceptUserMessage string string
  | AcceptAgentMessage string gemini_event
  | ScheduleToolCalls string "tool_request list"
  | WaitForPendingTools string
  | SendCompletedToolsToLlm string "tool_call list"

text \<open>
  The \<^verbatim>\<open>TaskStore\<close> handed to the executor, seen through its \<^verbatim>\<open>save\<close>: the
  tasks saved so far and whether \<^verbatim>\<open>save\<close> rejects.
\<close>

record task_store =
  saved :: "sdk_task list"
  save_error :: "thrown option"

text \<open>
  The executor (\<^verbatim>\<open>CoderAgentExecutor\<close>) with what it talks to: the registry
  \<open>tasks\<close>, the set \<open>executingTasks\<close>, the optional store, the events published so
  far on every bus in the order of publication, the calls made on tasks, and the source
  of \<^verbatim>\<open>uuidv4()\<close> (\<open>uuids\<close> lists the values it returns, \<open>uuid_ctr\<close> counts the
  calls).  A \<^verbatim>\<open>Task\<close> is a mutable object reached through the registry, so the
  registry entry is the object: every change of a task is a change of \<open>tasks\<close>.
\<close>

record engine =
  tasks :: "string \<rightharpoonup> task"
  executingTasks :: "string set"
  taskStore :: "task_store option"
  published :: "(bus \<times> status_update) list"
  trace :: "call list"
  uuids :: "nat \<Rightarrow> string"
  uuid_ctr :: nat

definition uuidv4 :: "engine \<Rightarrow> string \<times> engine" where
  "uuidv4 w = (uuids w (uuid_ctr w), w\<lparr>uuid_ctr := Suc (uuid_ctr w)\<rparr>)"

definition publish :: "bus \<Rightarrow> status_update \<Rightarrow> engine \<Rightarrow> engine" where
  "publish b ev w = w\<lparr>published := published w @ [(b, ev)]\<rparr>"

definition log_call :: "call \<Rightarrow> engine \<Rightarrow> engine" where
  "log_call c w = w\<lparr>trace := trace w @ [c]\<rparr>"

section \<open>The task object\<close>

text \<open>
  \<^verbatim>\<open>task.ts\<close> is outside the sources.  The methods of \<^verbatim>\<open>Task\<close> that the executor
  calls are modelled from the spec, each on the registry entry \<open>k\<close> that holds the
  object.  A method throws only where the request says that its \<^verbatim>\<open>await\<close> rejects;
  \<^verbatim>\<open>cancelPendingTools\<close> and \<^verbatim>\<open>setTaskStateAndPublishUpdate\<close>, which are not
  awaited, do not throw.
\<close>

definition update_task :: "string \<Rightarrow> (task \<Rightarrow> task) \<Rightarrow> engine \<Rightarrow> engine" where
  "update_task k f w =
     (case tasks w k of None \<Rightarrow> w | Some t \<Rightarrow> w\<lparr>tasks := (tasks w)(k \<mapsto> f t)\<rparr>)"

text \<open>
  Modelled from the spec: \<^verbatim>\<open>Task.create\<close> "allocates a fresh Task in state submitted".
\<close>

definition Task_create :: "string \<Rightarrow> string \<Rightarrow> agent_settings \<Rightarrow> bus option \<Rightarrow> task" where
  "Task_create tid cid st b =
     \<lparr>task_id = tid, task_contextId = cid, taskState = Submitted, eventBus = b,
      agentSettings = st, pendingTools = [], history = [], geminiHistory = []\<rparr>"

text \<open>
  Modelled from the spec: \<^verbatim>\<open>cancelPendingTools(reason)\<close> "cancel[s] all still-pending
  tool calls with a reason".
\<close>

definition cancel_tool :: "string \<Rightarrow> tool_call \<Rightarrow> tool_call" where
  "cancel_tool reason tc =
     (if tc_status tc = Pending then tc\<lparr>tc_status := Cancelled, tc_reason := Some reason\<rparr>
      else tc)"

definition cancelPendingTools :: "string \<Rightarrow> string \<Rightarrow> engine \<Rightarrow> engine" where
  "cancelPendingTools k reason w =
     update_task k (\<lambda>t. t\<lparr>pendingTools := map (cancel_tool reason) (pendingTools t)\<rparr>) w"

text \<open>
  Modelled from the spec: \<^verbatim>\<open>setTaskStateAndPublishUpdate(state, _, text, _, final)\<close>
  sets the state and publishes a status event (task id, context id, state, optional
  message, final flag) on the task's event bus, when it has one.
\<close>

definition setTaskStateAndPublishUpdate ::
  "string \<Rightarrow> task_state \<Rightarrow> string option \<Rightarrow> bool \<Rightarrow> engine \<Rightarrow> engine" where
  "setTaskStateAndPublishUpdate k newState text final w =
     (case tasks w k of
        None \<Rightarrow> w
      | Some t \<Rightarrow>
          let w' = w\<lparr>tasks := (tasks w)(k \<mapsto> t\<lparr>taskState := newState\<rparr>)\<rparr>;
              ev = \<lparr>su_taskId = task_id t, su_contextId = task_contextId t,
                    su_state = newState, su_text = text, su_messageId = None,
                    su_final = final\<rparr>
          in (case eventBus t of None \<Rightarrow> w' | Some b \<Rightarrow> publish b ev w'))"

text \<open>
  Modelled from the spec: \<^verbatim>\<open>acceptAgentMessage(event)\<close>: "content/status events are
  applied immediately to the Task's published status (forwarded to the event sink)";
  the event is never the final one of the invocation.
\<close>

definition event_text :: "gemini_event \<Rightarrow> string option" where
  "event_text ev = (case ev of Content c \<Rightarrow> Some c | ToolCallRequest r \<Rightarrow> None)"

definition acceptAgentMessage :: "string \<Rightarrow> gemini_event \<Rightarrow> engine \<Rightarrow> engine" where
  "acceptAgentMessage k ev w =
     (let w' = log_call (AcceptAgentMessage k ev) w
      in case tasks w' k of
           None \<Rightarrow> w'
         | Some t \<Rightarrow>
             (case eventBus t of
                None \<Rightarrow> w'
              | Some b \<Rightarrow>
                  publish b \<lparr>su_taskId = task_id t, su_contextId = task_contextId t,
                             su_state = taskState t, su_text = event_text ev,
                             su_messageId = None, su_final = False\<rparr> w'))"

text \<open>
  Modelled from the spec: \<^verbatim>\<open>scheduleToolCalls(requests)\<close> "schedule[s] all requested
  tool calls": each becomes a pending record.
\<close>

definition pending_call :: "tool_request \<Rightarrow> tool_call" where
  "pending_call r =
     \<lparr>callId = tr_callId r, tc_name = tr_name r, tc_args = tr_args r,
      tc_status = Pending, tc_reason = None\<rparr>"

definition scheduleToolCalls :: "string \<Rightarrow> tool_request list \<Rightarrow> engine \<Rightarrow> engine" where
  "scheduleToolCalls k reqs w =
     update_task k (\<lambda>t. t\<lparr>pendingTools := pendingTools t @ map pending_call reqs\<rparr>)
       (log_call (ScheduleToolCalls k reqs) w)"

text \<open>
  Modelled from the spec: \<^verbatim>\<open>waitForPendingTools()\<close> waits until the calls settle:
  "each call reaches success, error, or cancelled".  \<open>outcome\<close> gives, for each call
  identifier, the status the tool scheduler ends with; a call it leaves pending never
  settles, and then the wait does not return (\<open>None\<close>).
\<close>

definition settle_tool :: "(string \<Rightarrow> tool_status) \<Rightarrow> tool_call \<Rightarrow> tool_call" where
  "settle_tool outcome tc =
     (if tc_status tc = Pending then tc\<lparr>tc_status := outcome (callId tc)\<rparr> else tc)"

definition is_pending :: "tool_call \<Rightarrow> bool" where
  "is_pending tc = (tc_status tc = Pending)"

definition waitForPendingTools ::
  "string \<Rightarrow> (string \<Rightarrow> tool_status) \<Rightarrow> engine \<Rightarrow> engine option" where
  "waitForPendingTools k outcome w =
     (let w' = update_task k (\<lambda>t. t\<lparr>pendingTools := map (settle_tool outcome) (pendingTools t)\<rparr>)
                 (log_call (WaitForPendingTools k) w)
      in case tasks w' k of
           None \<Rightarrow> Some w'
         | Some t \<Rightarrow> if list_ex is_pending (pendingTools t) then None else Some w')"

text \<open>
  Modelled from the spec: \<^verbatim>\<open>getAndClearCompletedTools()\<close> hands over the settled
  calls and forgets them.
\<close>

definition getAndClearCompletedTools :: "string \<Rightarrow> engine \<Rightarrow> tool_call list \<times> engine" where
  "getAndClearCompletedTools k w =
     (case tasks w k of
        None \<Rightarrow> ([], w)
      | Some t \<Rightarrow>
          (filter (\<lambda>tc. \<not> is_pending tc) (pendingTools t),
           w\<lparr>tasks := (tasks w)(k \<mapsto> t\<lparr>pendingTools := filter is_pending (pendingTools t)\<rparr>)\<rparr>))"

text \<open>
  Modelled from the spec: \<^verbatim>\<open>addToolResponsesToHistory(tools)\<close> "record[s] the results
  into history", one agent message for each call.
\<close>

definition tool_response :: "tool_call \<Rightarrow> message" where
  "tool_response tc =
     \<lparr>messageId = callId tc, msg_role = Agent, msg_text = [tc_name tc],
      msg_taskId = None, msg_contextId = None, coderAgent = None\<rparr>"

definition addToolResponsesToHistory :: "string \<Rightarrow> tool_call list \<Rightarrow> engine \<Rightarrow> engine" where
  "addToolResponsesToHistory k tools w =
     update_task k (\<lambda>t. t\<lparr>history := history t @ map tool_response tools\<rparr>) w"

section \<open>The executor: creating, reconstructing and cancelling tasks\<close>

definition toSDKTask :: "task \<Rightarrow> sdk_task" where
  "toSDKTask t =
     \<lparr>sdk_id = task_id t, sdk_contextId = task_contextId t, sdk_state = taskState t,
      sdk_persisted = Some \<lparr>ps_agentSettings = agentSettings t, ps_taskState = taskState t\<rparr>,
      sdk_history = history t\<rparr>"

definition store_save :: "sdk_task \<Rightarrow> task_store \<Rightarrow> thrown + task_store" where
  "store_save t st =
     (case save_error st of
        Some e \<Rightarrow> Inl e
      | None \<Rightarrow> Inr (st\<lparr>saved := saved st @ [t]\<rparr>))"

text \<open>
  \<^verbatim>\<open>error instanceof Error ? error.message : dflt\<close>
\<close>

definition error_message :: "thrown \<Rightarrow> string \<Rightarrow> string" where
  "error_message e dflt = (case e of JsError m \<Rightarrow> m | JsOther \<Rightarrow> dflt)"

text \<open>
  \<^verbatim>\<open>getConfig\<close> loads the environment, the settings and the extensions of the
  workspace (all outside the sources); \<open>cfg\<close> says whether it, or
  \<^verbatim>\<open>Task.create\<close> after it, throws.
\<close>

definition role_name :: "role \<Rightarrow> string" where
  "role_name r = (if r = Agent then ''model'' else ''user'')"

definition reconstruct ::
  "sdk_task \<Rightarrow> bus option \<Rightarrow> thrown option \<Rightarrow> engine \<Rightarrow> thrown + engine" where
  "reconstruct sdkTask bus cfg w =
     (case sdk_persisted sdkTask of
        None \<Rightarrow>
          Inl (JsError (''Cannot reconstruct task '' @ sdk_id sdkTask
                 @ '': missing persisted state in metadata.''))
      | Some persistedState \<Rightarrow>
          (case cfg of
             Some e \<Rightarrow> Inl e
           | None \<Rightarrow>
               let runtimeTask =
                     Task_create (sdk_id sdkTask) (sdk_contextId sdkTask)
                       (ps_agentSettings persistedState) bus;
                   runtimeTask = runtimeTask\<lparr>taskState := ps_taskState persistedState\<rparr>;
                   runtimeTask = runtimeTask\<lparr>geminiHistory :=
                     geminiHistory runtimeTask
                       @ map (\<lambda>m. (role_name (msg_role m), msg_text m)) (sdk_history sdkTask)\<rparr>
               in Inr (w\<lparr>tasks := (tasks w)(sdk_id sdkTask \<mapsto> runtimeTask)\<rparr>)))"

text \<open>A throw of \<^verbatim>\<open>createTask\<close> comes with the state the executor is left in.\<close>

definition createTask ::
  "string \<Rightarrow> string \<Rightarrow> agent_settings \<Rightarrow> bus option \<Rightarrow> thrown option \<Rightarrow> engine
     \<Rightarrow> (thrown \<times> engine) + engine" where
  "createTask taskId contextId settings bus cfg w =
     (case cfg of
        Some e \<Rightarrow> Inl (e, w)
      | None \<Rightarrow>
          let runtimeTask = Task_create taskId contextId settings bus;
              w1 = w\<lparr>tasks := (tasks w)(taskId \<mapsto> runtimeTask)\<rparr>
          in (case taskStore w1 of
                None \<Rightarrow> Inr w1
              | Some st \<Rightarrow>
                  (case store_save (toSDKTask runtimeTask) st of
                     Inl e \<Rightarrow> Inl (e, w1)
                   | Inr st' \<Rightarrow> Inr (w1\<lparr>taskStore := Some st'\<rparr>))))"

definition getTask :: "string \<Rightarrow> engine \<Rightarrow> task option" where
  "getTask taskId w = tasks w taskId"

definition cancelTask :: "string \<Rightarrow> bus \<Rightarrow> engine \<Rightarrow> engine" where
  "cancelTask taskId bus w =
     (case tasks w taskId of
        None \<Rightarrow>
          let (cid, w1) = uuidv4 w;
              (mid, w2) = uuidv4 w1
          in publish bus
               \<lparr>su_taskId = taskId, su_contextId = cid, su_state = Failed,
                su_text = Some (''Task '' @ taskId @ '' not found.''),
                su_messageId = Some mid, su_final = True\<rparr> w2
      | Some t \<Rightarrow>
          if taskState t = Canceled \<or> taskState t = Failed then
            let (mid, w1) = uuidv4 w
            in publish bus
                 \<lparr>su_taskId = taskId, su_contextId = task_contextId t,
                  su_state = taskState t,
                  su_text = Some (''Task '' @ taskId @ '' is already ''
                                    @ state_name (taskState t) @ ''.''),
                  su_messageId = Some mid, su_final = True\<rparr> w1
          else
            let w1 = cancelPendingTools taskId ''Task canceled by user request.'' w;
                w2 = setTaskStateAndPublishUpdate taskId Canceled
                       (Some ''Task canceled by user request.'') True w1
            in (case (taskStore w2, tasks w2 taskId) of
                  (Some st, Some task) \<Rightarrow>
                    (case store_save (toSDKTask task) st of
                       Inr st' \<Rightarrow> w2\<lparr>taskStore := Some st'\<rparr>
                     | Inl error \<Rightarrow>
                         let errorMessage = error_message error ''Unknown error'';
                             (mid, w3) = uuidv4 w2
                         in publish bus
                              \<lparr>su_taskId = taskId, su_contextId = task_contextId task,
                               su_state = Failed,
                               su_text = Some (''Failed to process cancellation for task ''
                                                 @ taskId @ '': '' @ errorMessage),
                               su_messageId = Some mid, su_final = True\<rparr> w3)
                | _ \<Rightarrow> w2))"

section \<open>The executor: one inbound message\<close>

text \<open>
  What the executor cannot decide comes with the call.  While the executor is suspended
  in an \<^verbatim>\<open>await\<close>, the socket of the request may close and a cancel request for a
  task may be served.  An \<open>await\<close> lists what happens during the suspension and says
  whether the awaited promise rejects.
\<close>

datatype interrupt = SocketClose | CancelRequest string bus

record await =
  during :: "interrupt list"
  throws :: "thrown option"

text \<open>
  One item of a model stream: what happens while the executor waits for it, the event,
  and the \<^verbatim>\<open>await\<close> of \<^verbatim>\<open>acceptAgentMessage\<close> for it (unused for a tool-call
  request).
\<close>

record stream_item =
  before :: "interrupt list"
  event :: gemini_event
  accept :: await

text \<open>
  One pass of the \<^verbatim>\<open>while\<close> loop: the items of the stream, how the stream ends,
  the \<^verbatim>\<open>await\<close> of \<^verbatim>\<open>scheduleToolCalls\<close>, the \<^verbatim>\<open>await\<close> of
  \<^verbatim>\<open>waitForPendingTools\<close> and the status each tool call settles with.
\<close>

record turn =
  items :: "stream_item list"
  stream_end :: await
  schedule :: await
  tools_wait :: await
  settle :: "string \<Rightarrow> tool_status"

record request =
  userMessage :: message
  req_task :: "sdk_task option"
  has_socket :: bool
  config_error :: "thrown option"
  turns :: "turn list"

text \<open>
  The abort signal of the call is a flag.  The listener on the socket exists only when
  \<^verbatim>\<open>requestStorage.getStore()\<close> gave the request (\<open>has_socket\<close>).
\<close>

fun suspend :: "bool \<Rightarrow> interrupt list \<Rightarrow> bool \<times> engine \<Rightarrow> bool \<times> engine" where
  "suspend hs [] s = s"
| "suspend hs (SocketClose # is) (aborted, w) = suspend hs is (aborted \<or> hs, w)"
| "suspend hs (CancelRequest taskId bus # is) (aborted, w) =
     suspend hs is (aborted, cancelTask taskId bus w)"

definition Execution_aborted :: thrown where
  "Execution_aborted = JsError ''Execution aborted''"

text \<open>
  The \<^verbatim>\<open>for await\<close> loop over one stream (lines 407 to 416): the requests collected,
  or what was thrown.
\<close>

fun consume ::
  "string \<Rightarrow> bool \<Rightarrow> stream_item list \<Rightarrow> tool_request list \<Rightarrow> bool \<times> engine
     \<Rightarrow> (thrown + tool_request list) \<times> bool \<times> engine" where
  "consume k hs [] toolCallRequests (aborted, w) = (Inr toolCallRequests, aborted, w)"
| "consume k hs (it # its) toolCallRequests (aborted, w) =
     (let (aborted, w) = suspend hs (before it) (aborted, w)
      in if aborted then (Inl Execution_aborted, aborted, w)
         else (case event it of
                 ToolCallRequest r \<Rightarrow> consume k hs its (toolCallRequests @ [r]) (aborted, w)
               | Content c \<Rightarrow>
                   (let (aborted, w) =
                          suspend hs (during (accept it))
                            (aborted, acceptAgentMessage k (Content c) w)
                    in case throws (accept it) of
                         Some e \<Rightarrow> (Inl e, aborted, w)
                       | None \<Rightarrow> consume k hs its toolCallRequests (aborted, w))))"

text \<open>
  One pass of the \<^verbatim>\<open>while\<close> loop (lines 406 to 448).  A call that starts work
  (\<^verbatim>\<open>acceptAgentMessage\<close>, \<^verbatim>\<open>scheduleToolCalls\<close>) acts before the executor is
  suspended in its \<^verbatim>\<open>await\<close>; \<^verbatim>\<open>waitForPendingTools\<close> returns at the end of the
  suspension.  The pass ends the loop (\<open>Exit\<close>), or asks for another pass on the stream
  of \<^verbatim>\<open>sendCompletedToolsToLlm\<close> (\<open>Continue\<close>), or never ends because a tool call
  never settles (\<open>Stuck\<close>).
\<close>

datatype outcome = Done | Thrown thrown

datatype step = Exit outcome | Continue | Stuck

definition turn_step :: "string \<Rightarrow> bool \<Rightarrow> turn \<Rightarrow> bool \<times> engine \<Rightarrow> step \<times> bool \<times> engine" where
  "turn_step k hs r s =
     (case consume k hs (items r) [] s of
        (Inl e, aborted, w) \<Rightarrow> (Exit (Thrown e), aborted, w)
      | (Inr toolCallRequests, aborted, w) \<Rightarrow>
          (let (aborted, w) = suspend hs (during (stream_end r)) (aborted, w)
           in case throws (stream_end r) of
                Some e \<Rightarrow> (Exit (Thrown e), aborted, w)
              | None \<Rightarrow>
                  if aborted then (Exit (Thrown Execution_aborted), aborted, w)
                  else
                    (case (if toolCallRequests \<noteq> [] then
                             (let (aborted, w) =
                                    suspend hs (during (schedule r))
                                      (aborted, scheduleToolCalls k toolCallRequests w)
                              in (throws (schedule r), aborted, w))
                           else (None, aborted, w)) of
                       (Some e, aborted, w) \<Rightarrow> (Exit (Thrown e), aborted, w)
                     | (None, aborted, w) \<Rightarrow>
                         (let (aborted, w) = suspend hs (during (tools_wait r)) (aborted, w)
                          in case throws (tools_wait r) of
                               Some e \<Rightarrow> (Exit (Thrown e), aborted, w)
                             | None \<Rightarrow>
                                 (case waitForPendingTools k (settle r) w of
                                    None \<Rightarrow> (Stuck, aborted, w)
                                  | Some w \<Rightarrow>
                                      if aborted then
                                        (Exit (Thrown Execution_aborted), aborted, w)
                                      else
                                        (let (completedTools, w) = getAndClearCompletedTools k w
                                         in if completedTools \<noteq> [] then
                                              if list_all (\<lambda>tool. tc_status tool = Cancelled)
                                                   completedTools
                                              then
                                                (Exit Done, aborted,
                                                 setTaskStateAndPublishUpdate k InputRequired
                                                   None True
                                                   (addToolResponsesToHistory k completedTools w))
                                              else
                                                (Continue, aborted,
                                                 log_call
                                                   (SendCompletedToolsToLlm k completedTools) w)
                                            else (Exit Done, aborted, w)))))))"

text \<open>
  The \<^verbatim>\<open>while\<close> loop (lines 405 to 449), one \<open>turn\<close> for each pass.  When the
  streams that the environment supplies run out before the loop ends, the next stream
  never yields and the loop does not return: \<open>None\<close>.
\<close>

fun turn_loop ::
  "string \<Rightarrow> bool \<Rightarrow> turn list \<Rightarrow> bool \<times> engine \<Rightarrow> (outcome \<times> bool \<times> engine) option" where
  "turn_loop k hs [] s = None"
| "turn_loop k hs (r # rs) s =
     (case turn_step k hs r s of
        (Exit out, s') \<Rightarrow> Some (out, s')
      | (Continue, s') \<Rightarrow> turn_loop k hs rs s'
      | (Stuck, s') \<Rightarrow> None)"

text \<open>The event bus that the task object at registry entry \<open>k\<close> publishes on.\<close>

definition bus_of :: "string \<Rightarrow> engine \<Rightarrow> bus option option" where
  "bus_of k w = map_option eventBus (tasks w k)"

text \<open>The \<^verbatim>\<open>catch\<close> block (lines 458 to 491).\<close>

definition state_of :: "string \<Rightarrow> engine \<Rightarrow> task_state option" where
  "state_of k w = map_option taskState (tasks w k)"

definition on_error :: "string \<Rightarrow> bool \<Rightarrow> thrown \<Rightarrow> engine \<Rightarrow> engine" where
  "on_error k aborted error w =
     (if aborted then
        let w = cancelPendingTools k ''Execution aborted'' w
        in if state_of k w \<noteq> Some Canceled \<and> state_of k w \<noteq> Some Failed then
             setTaskStateAndPublishUpdate k InputRequired
               (Some ''Execution aborted by client.'') True w
           else w
      else
        let errorMessage = error_message error ''Agent execution error'';
            w = cancelPendingTools k errorMessage w
        in if state_of k w \<noteq> Some Failed then
             setTaskStateAndPublishUpdate k Failed (Some errorMessage) True w
           else w)"

text \<open>The \<^verbatim>\<open>finally\<close> block (lines 492 to 497).\<close>

definition finally_block :: "string \<Rightarrow> engine \<Rightarrow> engine" where
  "finally_block taskId w = w\<lparr>executingTasks := executingTasks w - {taskId}\<rparr>"

text \<open>
  The main execution (lines 393 to 497) for the task object at registry entry \<open>k\<close>:
  the \<^verbatim>\<open>try\<close> block up to the end of the loop, then the rest.
\<close>

definition try_block ::
  "string \<Rightarrow> string \<Rightarrow> request \<Rightarrow> engine \<Rightarrow> (outcome \<times> bool \<times> engine) option" where
  "try_block k taskId req w =
     (let w = w\<lparr>executingTasks := insert taskId (executingTasks w)\<rparr>;
          w = log_call (AcceptUserMessage k (messageId (userMessage req))) w
      in turn_loop k (has_socket req) (turns req) (False, w))"

definition main_execution :: "string \<Rightarrow> string \<Rightarrow> request \<Rightarrow> engine \<Rightarrow> engine option" where
  "main_execution k taskId req w =
     (case try_block k taskId req w of
        None \<Rightarrow> None
      | Some (Done, aborted, w) \<Rightarrow>
          Some (finally_block taskId
                  (setTaskStateAndPublishUpdate k InputRequired None True w))
      | Some (Thrown error, aborted, w) \<Rightarrow>
          Some (finally_block taskId (on_error k aborted error w)))"

text \<open>
  A call of \<^verbatim>\<open>execute\<close> returns, or throws, or never ends (\<open>None\<close>); in the first
  two cases it leaves the executor in a state.
\<close>

datatype exec_result = Returned engine | Raised thrown engine

text \<open>
  The branch for a task with a pending execution (lines 379 to 391): the stream of
  \<^verbatim>\<open>acceptUserMessage\<close> is read to its end, no event of it is looked at, and nothing
  catches what it throws.
\<close>

fun absorb :: "bool \<Rightarrow> stream_item list \<Rightarrow> bool \<times> engine \<Rightarrow> bool \<times> engine" where
  "absorb hs [] s = s"
| "absorb hs (it # its) s = absorb hs its (suspend hs (before it) s)"

definition join :: "string \<Rightarrow> request \<Rightarrow> bus \<Rightarrow> engine \<Rightarrow> exec_result option" where
  "join k req bus w =
     (let w = update_task k (\<lambda>t. t\<lparr>eventBus := Some bus\<rparr>) w;
          w = log_call (AcceptUserMessage k (messageId (userMessage req))) w
      in case turns req of
           [] \<Rightarrow> None
         | r # rs \<Rightarrow>
             (let (aborted, w) =
                    suspend (has_socket req) (during (stream_end r))
                      (absorb (has_socket req) (items r) (False, w))
              in case throws (stream_end r) of
                   Some e \<Rightarrow> Some (Raised e w)
                 | None \<Rightarrow> Some (Returned w)))"

definition terminal :: "task_state \<Rightarrow> bool" where
  "terminal s = (s \<in> set [Canceled, Failed, Completed])"

text \<open>Lines 365 to 497, for the task object at registry entry \<open>k\<close>.\<close>

definition proceed :: "string \<Rightarrow> string \<Rightarrow> request \<Rightarrow> bus \<Rightarrow> engine \<Rightarrow> exec_result option" where
  "proceed k taskId req bus w =
     (case tasks w k of
        None \<Rightarrow> Some (Returned w)
      | Some currentTask \<Rightarrow>
          if terminal (taskState currentTask) then Some (Returned w)
          else if taskId \<in> executingTasks w then join k req bus w
          else map_option Returned (main_execution k taskId req w))"

text \<open>
  Lines 274 to 276: \<^verbatim>\<open>a || b || uuidv4()\<close>.  \<^verbatim>\<open>uuidv4\<close> is called only when
  both \<^verbatim>\<open>a\<close> and \<^verbatim>\<open>b\<close> are falsy.
\<close>

definition or_else :: "string option \<Rightarrow> string option \<Rightarrow> string option" where
  "or_else a b = (if truthy a then a else b)"

definition resolve_id :: "string option \<Rightarrow> string option \<Rightarrow> engine \<Rightarrow> string \<times> engine" where
  "resolve_id a b w =
     (case or_else a b of
        Some s \<Rightarrow> if s \<noteq> [] then (s, w) else uuidv4 w
      | None \<Rightarrow> uuidv4 w)"

definition resolve_taskId :: "request \<Rightarrow> engine \<Rightarrow> string \<times> engine" where
  "resolve_taskId req w =
     resolve_id (map_option sdk_id (req_task req)) (msg_taskId (userMessage req)) w"

definition resolve_contextId :: "request \<Rightarrow> engine \<Rightarrow> string \<times> engine" where
  "resolve_contextId req w =
     resolve_id (msg_contextId (userMessage req)) (map_option sdk_contextId (req_task req)) w"

text \<open>
  Modelled from the spec: \<^verbatim>\<open>pushTaskStateFailed\<close> of \<^verbatim>\<open>executor_utils.ts\<close>
  (outside the sources) publishes a final \<^verbatim>\<open>failed\<close> status event with the text of
  the error.
\<close>

definition pushTaskStateFailed :: "thrown \<Rightarrow> bus \<Rightarrow> string \<Rightarrow> string \<Rightarrow> engine \<Rightarrow> engine" where
  "pushTaskStateFailed error bus taskId contextId w =
     publish bus
       \<lparr>su_taskId = taskId, su_contextId = contextId, su_state = Failed,
        su_text = Some (error_message error ''Agent execution error''),
        su_messageId = None, su_final = True\<rparr> w"

text \<open>
  \<^verbatim>\<open>CoderAgentEvent.StateAgentSettingsEvent\<close> (declared in \<^verbatim>\<open>types.ts\<close>, outside the
  sources) is the \<^verbatim>\<open>kind\<close> that the debugging client sends.
\<close>

definition StateAgentSettingsEvent :: string where
  "StateAgentSettingsEvent = ''agent-settings''"

text \<open>
  Lines 271 to 363: the task object is found in the registry, or reconstructed, or
  created (\<open>Located\<close>, with the registry entry that holds it and the task id of the
  request), or the call is over.
\<close>

datatype located = Located string string engine | Finished exec_result

definition locate :: "request \<Rightarrow> bus \<Rightarrow> engine \<Rightarrow> located" where
  "locate req bus w =
     (let (taskId, w) = resolve_taskId req w;
          (contextId, w) = resolve_contextId req w
      in case tasks w taskId of
           Some t \<Rightarrow>
             Located taskId taskId (update_task taskId (\<lambda>t. t\<lparr>eventBus := Some bus\<rparr>) w)
         | None \<Rightarrow>
             (case req_task req of
                Some sdkTask \<Rightarrow>
                  (case reconstruct sdkTask (Some bus) (config_error req) w of
                     Inl e \<Rightarrow>
                       Finished (Returned
                         (pushTaskStateFailed e bus taskId (sdk_contextId sdkTask) w))
                   | Inr w \<Rightarrow> Located (sdk_id sdkTask) taskId w)
              | None \<Rightarrow>
                  (case coderAgent (userMessage req) of
                     None \<Rightarrow>
                       Finished (Returned
                         (pushTaskStateFailed
                            (JsError ''Internal error: AgentSettings not found in the first message of a new task.'')
                            bus taskId contextId w))
                   | Some settings \<Rightarrow>
                       if as_kind settings \<noteq> StateAgentSettingsEvent then
                         Finished (Returned
                           (pushTaskStateFailed
                              (JsError ''Internal error: AgentSettings not found in the first message of a new task.'')
                              bus taskId contextId w))
                       else
                         (case createTask taskId contextId settings (Some bus)
                                 (config_error req) w of
                            Inl (e, w) \<Rightarrow> Finished (Raised e w)
                          | Inr w \<Rightarrow> Located taskId taskId w))))"

definition execute :: "request \<Rightarrow> bus \<Rightarrow> engine \<Rightarrow> exec_result option" where
  "execute req bus w =
     (case locate req bus w of
        Finished r \<Rightarrow> Some r
      | Located k taskId w \<Rightarrow> proceed k taskId req bus w)"

text \<open>
  Predicates for the statements about events.  In a well-formed registry every task
  object sits at the entry of its own id, as \<^verbatim>\<open>createTask\<close> and \<^verbatim>\<open>reconstruct\<close> put
  it.  \<open>finals_for k evs\<close> are the final events of \<open>evs\<close> for the task id \<open>k\<close>, and
  \<open>finals_on bus k evs\<close> those of them that were published on \<open>bus\<close>.  A request is
  \<open>foreign\<close> to a bus when every cancel request that is served while it is executed
  comes with another bus (each request to the server has an event bus of its own).
\<close>

definition wf_registry :: "engine \<Rightarrow> bool" where
  "wf_registry w = (\<forall>k t. tasks w k = Some t \<longrightarrow> task_id t = k)"

definition finals_for :: "string \<Rightarrow> (bus \<times> status_update) list \<Rightarrow> (bus \<times> status_update) list" where
  "finals_for k evs = filter (\<lambda>(b, ev). su_final ev \<and> su_taskId ev = k) evs"

definition finals_on ::
  "bus \<Rightarrow> string \<Rightarrow> (bus \<times> status_update) list \<Rightarrow> (bus \<times> status_update) list" where
  "finals_on bus k evs = filter (\<lambda>(b, ev). b = bus) (finals_for k evs)"




text \<open>
  The invariant of the loop.  \<open>quiet_since fg bus k w0 w\<close>: the registry of \<open>w\<close> is
  well-formed, the task at \<open>k\<close> has the event bus \<open>bus\<close>, the events of \<open>w\<close> extend those
  of \<open>w0\<close>, a final event for the task has been published since \<open>w0\<close> exactly when the
  task is canceled or failed in \<open>w\<close>, and, when \<open>fg\<close> says that the cancel requests are
  foreign to \<open>bus\<close>, exactly one of these final events is on \<open>bus\<close>.
\<close>

definition canceled_or_failed :: "string \<Rightarrow> engine \<Rightarrow> bool" where
  "canceled_or_failed k w = (state_of k w = Some Canceled \<or> state_of k w = Some Failed)"

definition quiet_since :: "bool \<Rightarrow> bus \<Rightarrow> string \<Rightarrow> engine \<Rightarrow> engine \<Rightarrow> bool" where
  "quiet_since fg bus k w0 w =
     (wf_registry w \<and> bus_of k w = Some (Some bus)
      \<and> (\<exists>evs. published w = published w0 @ evs
            \<and> (finals_for k evs \<noteq> []) = canceled_or_failed k w
            \<and> (fg \<longrightarrow> length (finals_on bus k evs)
                         = (if canceled_or_failed k w then 1 else 0))))"



section \<open>The durable store\<close>

text \<open>
  The sources hold two listings of the class \<^verbatim>\<open>GCSTaskStore\<close>.  The first one
  (lines 1 to 249 of its file) keeps a message log for each context; its functions are
  \<open>save_A\<close>, \<open>load_A\<close> and \<open>getContextHistory\<close>.  The second one (lines 251 to 559)
  has no such log and comes with \<^verbatim>\<open>NoOpTaskStore\<close>; its functions are \<open>save_B\<close> and
  \<open>load_B\<close>.

  A bucket is the list of the objects written to it, oldest first; the newest write to a
  path is the object at that path.  The content of an object is what was serialised
  into it: a text that is not JSON (the store writes context ids as texts and parses
  none of them), the JSON of a task, the JSON of a message list, or the archive of a
  directory (the names of its entries).  Where the message log of a context is read,
  \<^verbatim>\<open>JSON.parse\<close> throws on a text and on an archive, gives an object that is no array
  for the JSON of a task, and gives the list for the JSON of a message list.  The bucket
  is taken to exist and every request to it to be answered.
\<close>

datatype blob =
    Text string
  | Json_task sdk_task
  | Json_history "message list"
  | Tarball "string list"

type_synonym bucket = "(string \<times> blob) list"

definition download :: "string \<Rightarrow> bucket \<Rightarrow> blob option" where
  "download path b = map_of (rev b) path"

definition file_exists :: "string \<Rightarrow> bucket \<Rightarrow> bool" where
  "file_exists path b = (download path b \<noteq> None)"

definition file_save :: "string \<Rightarrow> blob \<Rightarrow> bucket \<Rightarrow> bucket" where
  "file_save path content b = b @ [(path, content)]"

text \<open>
  The working directory of the process (\<^verbatim>\<open>process.cwd()\<close>) as \<^verbatim>\<open>save\<close> finds it:
  whether it exists, its entries, the name of the temporary archive, whether
  \<^verbatim>\<open>tar.c\<close> leaves that archive behind, and what \<^verbatim>\<open>bucket.upload\<close> throws when it
  is given a file that is not there.
\<close>

record workdir =
  dir_exists :: bool
  entries :: "string list"
  tmpArchiveFile :: string
  tar_created :: bool
  upload_error :: thrown

subsection \<open>First listing\<close>

definition getTaskPath :: "string \<Rightarrow> string \<Rightarrow> string \<Rightarrow> string" where
  "getTaskPath contextId taskId fileName =
     ''contexts/'' @ contextId @ ''/'' @ taskId @ ''/'' @ fileName"

definition getIndexPath :: "string \<Rightarrow> string" where
  "getIndexPath taskId = ''tasks/'' @ taskId @ ''/contextId.txt''"

definition getContextHistoryPath :: "string \<Rightarrow> string" where
  "getContextHistoryPath contextId = ''contexts/'' @ contextId @ ''/context_history.json''"

text \<open>
  Lines 146 to 155: what \<^verbatim>\<open>history\<close> holds after the log was read back.  It stays the
  empty list when there is no log and when \<^verbatim>\<open>JSON.parse\<close> throws, which is caught; a
  log that parses to something that is no array is taken as it is.
\<close>

datatype log_content = Messages "message list" | Not_an_array

definition read_history :: "string \<Rightarrow> bucket \<Rightarrow> log_content" where
  "read_history historyPath b =
     (case download historyPath b of
        None \<Rightarrow> Messages []
      | Some (Json_history h) \<Rightarrow> Messages h
      | Some (Json_task t) \<Rightarrow> Not_an_array
      | Some (Text s) \<Rightarrow> Messages []
      | Some (Tarball es) \<Rightarrow> Messages [])"

text \<open>
  Lines 80 to 173.  A throw comes with the bucket as the writes before it left it.  The
  upload of line 122 throws when \<^verbatim>\<open>tar.c\<close> left no archive; \<^verbatim>\<open>history.map\<close> of line
  159, which no \<^verbatim>\<open>try\<close> surrounds, throws a \<^verbatim>\<open>TypeError\<close> when the log is no array.
\<close>

definition save_A :: "workdir \<Rightarrow> sdk_task \<Rightarrow> bucket \<Rightarrow> (thrown \<times> bucket) + bucket" where
  "save_A workDir task b =
     (let taskId = sdk_id task; contextId = sdk_contextId task
      in if contextId = [] then
           Inl (JsError (''Task '' @ taskId @ '' is missing a contextId.''), b)
         else
           let b = file_save (getTaskPath contextId taskId ''task.json'') (Json_task task) b
           in if dir_exists workDir \<and> entries workDir \<noteq> [] \<and> \<not> tar_created workDir then
                Inl (upload_error workDir, b)
              else
                let b = (if dir_exists workDir \<and> entries workDir \<noteq> [] then
                           file_save (getTaskPath contextId taskId ''workspace.tar.gz'')
                             (Tarball (entries workDir)) b
                         else b);
                    b = file_save (getIndexPath taskId) (Text contextId) b;
                    historyPath = getContextHistoryPath contextId
                in if sdk_history task \<noteq> [] then
                     (case read_history historyPath b of
                        Not_an_array \<Rightarrow>
                          Inl (JsError ''history.map is not a function'', b)
                      | Messages log \<Rightarrow>
                          let existingMessageIds = set (map messageId log);
                              newMessages =
                                filter (\<lambda>m. messageId m \<notin> existingMessageIds)
                                  (sdk_history task)
                          in if newMessages \<noteq> [] then
                               Inr (file_save historyPath
                                      (Json_history (log @ newMessages)) b)
                             else Inr b)
                   else Inr b)"

text \<open>
  \<^verbatim>\<open>load\<close> returns the task, or \<^verbatim>\<open>undefined\<close> (\<open>None\<close>), or throws.  With the task
  come the entries extracted into the work directory, when there is an archive.
\<close>

definition restore_workspace :: "string \<Rightarrow> bucket \<Rightarrow> thrown + string list option" where
  "restore_workspace archivePath b =
     (case download archivePath b of
        None \<Rightarrow> Inr None
      | Some (Tarball es) \<Rightarrow> Inr (Some es)
      | Some _ \<Rightarrow> Inl (JsError ''tar.x failed''))"

definition load_A :: "string \<Rightarrow> bucket \<Rightarrow> thrown + (sdk_task \<times> string list option) option" where
  "load_A taskId b =
     (case download (getIndexPath taskId) b of
        None \<Rightarrow> Inr None
      | Some (Text contextId) \<Rightarrow>
          (case download (getTaskPath contextId taskId ''task.json'') b of
             None \<Rightarrow> Inr None
           | Some (Json_task sdkTask) \<Rightarrow>
               (case sdk_persisted sdkTask of
                  None \<Rightarrow>
                    Inl (JsError (''Loaded metadata for task '' @ taskId
                           @ '' is missing internal persisted state.''))
                | Some persistedState \<Rightarrow>
                    (case restore_workspace
                            (getTaskPath contextId taskId ''workspace.tar.gz'') b of
                       Inl e \<Rightarrow> Inl e
                     | Inr restored \<Rightarrow> Inr (Some (sdkTask, restored))))
           | Some _ \<Rightarrow> Inl (JsError ''JSON.parse failed''))
      | Some _ \<Rightarrow> Inl (JsError ''unexpected index content''))"

text \<open>
  Lines 238 to 248: no \<^verbatim>\<open>try\<close> surrounds the parse, and what it gives is returned as
  it is.
\<close>

definition getContextHistory :: "string \<Rightarrow> bucket \<Rightarrow> thrown + log_content" where
  "getContextHistory contextId b =
     (case download (getContextHistoryPath contextId) b of
        None \<Rightarrow> Inr (Messages [])
      | Some (Json_history h) \<Rightarrow> Inr (Messages h)
      | Some (Json_task t) \<Rightarrow> Inr Not_an_array
      | Some _ \<Rightarrow> Inl (JsError ''JSON.parse failed''))"

subsection \<open>Second listing\<close>

definition getContextIdIndexPath :: "string \<Rightarrow> string" where
  "getContextIdIndexPath taskId = ''tasks/'' @ taskId @ ''/contextId.txt''"

definition getTaskObjectPath :: "string \<Rightarrow> string \<Rightarrow> string" where
  "getTaskObjectPath contextId taskId = ''contexts/'' @ contextId @ ''/'' @ taskId @ ''/task.json''"

definition getWorkspaceObjectPath :: "string \<Rightarrow> string \<Rightarrow> string" where
  "getWorkspaceObjectPath contextId taskId =
     ''contexts/'' @ contextId @ ''/'' @ taskId @ ''/workspace.tar.gz''"


definition load_B :: "string \<Rightarrow> bucket \<Rightarrow> thrown + (sdk_task \<times> string list option) option" where
  "load_B taskId b =
     (case download (getContextIdIndexPath taskId) b of
        None \<Rightarrow> Inr None
      | Some (Text contextId) \<Rightarrow>
          (case download (getTaskObjectPath contextId taskId) b of
             None \<Rightarrow>
               Inl (JsError (''Inconsistent state: Task object not found for task '' @ taskId))
           | Some (Json_task task) \<Rightarrow>
               (case restore_workspace (getWorkspaceObjectPath contextId taskId) b of
                  Inl e \<Rightarrow> Inl e
                | Inr restored \<Rightarrow> Inr (Some (task, restored)))
           | Some _ \<Rightarrow> Inl (JsError ''JSON.parse failed''))
      | Some _ \<Rightarrow> Inl (JsError ''unexpected index content''))"

text \<open>\<^verbatim>\<open>NoOpTaskStore\<close> ignores every save and hands every load to the real store.\<close>

definition noop_save :: "sdk_task \<Rightarrow> bucket \<Rightarrow> (thrown \<times> bucket) + bucket" where
  "noop_save task b = Inr b"

definition noop_load ::
  "(string \<Rightarrow> bucket \<Rightarrow> thrown + (sdk_task \<times> string list option) option)
     \<Rightarrow> string \<Rightarrow> bucket \<Rightarrow> thrown + (sdk_task \<times> string list option) option" where
  "noop_load realStore_load taskId b = realStore_load taskId b"

subsection \<open>The save of the spec, and what a save writes\<close>



text \<open>The archive a save uploads: none when the directory is absent or empty.\<close>

definition archive_part :: "workdir \<Rightarrow> string \<Rightarrow> bucket" where
  "archive_part workDir path =
     (if dir_exists workDir \<and> entries workDir \<noteq> [] then [(path, Tarball (entries workDir))]
      else [])"

text \<open>The messages of a history whose ids are not in the log.\<close>

definition new_messages :: "message list \<Rightarrow> message list \<Rightarrow> message list" where
  "new_messages log h = filter (\<lambda>m. messageId m \<notin> set (map messageId log)) h"

text \<open>
  The log a save of the first listing writes when the log it found is \<open>log\<close>: none when
  no message is new.
\<close>

definition history_part :: "string \<Rightarrow> message list \<Rightarrow> sdk_task \<Rightarrow> bucket" where
  "history_part path log task =
     (let new = new_messages log (sdk_history task)
      in if new = [] then [] else [(path, Json_history (log @ new))])"

text \<open>\<^verbatim>\<open>tar.c\<close> is not asked for an archive, or leaves one.\<close>

definition archive_ok :: "workdir \<Rightarrow> bool" where
  "archive_ok workDir =
     (\<not> (dir_exists workDir \<and> entries workDir \<noteq> [] \<and> \<not> tar_created workDir))"

section \<open>Example states\<close>

text \<open>Concrete inputs on which the theorems below are run.\<close>

definition empty_engine :: engine where
  "empty_engine =
     \<lparr>tasks = Map.empty, executingTasks = {}, taskStore = None, published = [],
      trace = [], uuids = (\<lambda>n. replicate (Suc n) CHR ''u''), uuid_ctr = 0\<rparr>"

definition ws_settings :: agent_settings where
  "ws_settings = \<lparr>as_kind = ''agent-settings'', workspacePath = ''/ws''\<rparr>"

definition snapshot_T1 :: sdk_task where
  "snapshot_T1 =
     \<lparr>sdk_id = ''T1'', sdk_contextId = ''C1'', sdk_state = InputRequired,
      sdk_persisted = Some \<lparr>ps_agentSettings = ws_settings, ps_taskState = InputRequired\<rparr>,
      sdk_history = []\<rparr>"

definition followup_message :: message where
  "followup_message =
     \<lparr>messageId = ''m2'', msg_role = User, msg_text = [''and then?''],
      msg_taskId = Some ''T2'', msg_contextId = Some ''C2'', coderAgent = None\<rparr>"

definition followup_request :: request where
  "followup_request =
     \<lparr>userMessage = followup_message, req_task = Some snapshot_T1, has_socket = True,
      config_error = None, turns = []\<rparr>"

text \<open>A task with one tool call that waits, in three lifecycle states.\<close>

definition call1 :: tool_call where
  "call1 = pending_call \<lparr>tr_callId = ''call1'', tr_name = ''shell'', tr_args = ''ls''\<rparr>"

definition idle_task :: task where
  "idle_task =
     (Task_create ''T1'' ''C1'' ws_settings (Some 7))
       \<lparr>taskState := InputRequired, pendingTools := [call1]\<rparr>"

definition idle_engine :: engine where
  "idle_engine = empty_engine\<lparr>tasks := [''T1'' \<mapsto> idle_task]\<rparr>"

definition busy_engine :: engine where
  "busy_engine =
     empty_engine\<lparr>tasks := [''T1'' \<mapsto> idle_task\<lparr>taskState := Working\<rparr>],
                   executingTasks := {''T1''}\<rparr>"

definition completed_engine :: engine where
  "completed_engine = empty_engine\<lparr>tasks := [''T1'' \<mapsto> idle_task\<lparr>taskState := Completed\<rparr>]\<rparr>"

definition second_message :: message where
  "second_message =
     \<lparr>messageId = ''m2'', msg_role = User, msg_text = [''and then?''],
      msg_taskId = Some ''T1'', msg_contextId = Some ''C1'', coderAgent = None\<rparr>"

definition quiet :: await where
  "quiet = \<lparr>during = [], throws = None\<rparr>"

text \<open>A stream that ends at once.\<close>

definition empty_turn :: turn where
  "empty_turn =
     \<lparr>items = [], stream_end = quiet, schedule = quiet, tools_wait = quiet,
      settle = (\<lambda>c. Success)\<rparr>"

definition second_request :: request where
  "second_request =
     \<lparr>userMessage = second_message, req_task = None, has_socket = True,
      config_error = None, turns = [empty_turn]\<rparr>"

text \<open>A stream that throws, and a stream during which the client goes away.\<close>

definition failing_request :: request where
  "failing_request =
     second_request\<lparr>turns :=
       [empty_turn\<lparr>stream_end := \<lparr>during = [], throws = Some (JsError ''model unavailable'')\<rparr>\<rparr>]\<rparr>"

definition disconnect_request :: request where
  "disconnect_request =
     second_request\<lparr>turns :=
       [empty_turn\<lparr>items := [\<lparr>before = [SocketClose], event = Content ''hi'',
                                 accept = quiet\<rparr>]\<rparr>]\<rparr>"




text \<open>A task to save, and a working directory with one file.\<close>

definition hello_message :: message where
  "hello_message =
     \<lparr>messageId = ''m1'', msg_role = User, msg_text = [''hello''],
      msg_taskId = Some ''T1'', msg_contextId = Some ''C1'', coderAgent = None\<rparr>"

definition saved_task :: sdk_task where
  "saved_task = snapshot_T1\<lparr>sdk_history := [hello_message]\<rparr>"

definition full_workdir :: workdir where
  "full_workdir =
     \<lparr>dir_exists = True, entries = [''file1.txt''],
      tmpArchiveFile = ''/tmp/task-T1-workspace-u.tar.gz'', tar_created = True,
      upload_error = JsError ''ENOENT''\<rparr>"

section \<open>Lemmas about the executor\<close>

lemmas example_defs =
  empty_engine_def ws_settings_def snapshot_T1_def followup_message_def followup_request_def
  call1_def idle_task_def idle_engine_def busy_engine_def completed_engine_def
  second_message_def quiet_def empty_turn_def second_request_def failing_request_def
  disconnect_request_def hello_message_def saved_task_def full_workdir_def
  Task_create_def pending_call_def

lemmas task_defs =
  update_task_def cancelPendingTools_def cancel_tool_def setTaskStateAndPublishUpdate_def
  acceptAgentMessage_def event_text_def publish_def log_call_def uuidv4_def state_of_def

lemmas resolve_defs =
  resolve_taskId_def resolve_contextId_def resolve_id_def or_else_def truthy_def

subsection \<open>Cancelling tool calls\<close>

text \<open>
  After \<^verbatim>\<open>cancelPendingTools\<close> no tool call of the task is pending: a call that was
  pending is cancelled and carries the reason, any other call is as it was.
\<close>

lemma cancel_tool_pending:
  "is_pending tc \<Longrightarrow> cancel_tool r tc = tc\<lparr>tc_status := Cancelled, tc_reason := Some r\<rparr>"
  by (simp add: cancel_tool_def is_pending_def)

lemma cancel_tool_settled: "\<not> is_pending tc \<Longrightarrow> cancel_tool r tc = tc"
  by (simp add: cancel_tool_def is_pending_def)

lemma cancel_tool_none_pending: "\<not> list_ex is_pending (map (cancel_tool r) tcs)"
  by (induction tcs) (simp_all add: cancel_tool_def is_pending_def)

subsection \<open>The event bus of a task stays what it is\<close>

lemma bus_of_update_task:
  "(\<And>t. eventBus (f t) = eventBus t) \<Longrightarrow> bus_of k (update_task k' f w) = bus_of k w"
  by (simp add: bus_of_def update_task_def split: option.splits)

lemma bus_of_fields [simp]:
  "bus_of k (w\<lparr>taskStore := st\<rparr>) = bus_of k w"
  "bus_of k (w\<lparr>uuid_ctr := n\<rparr>) = bus_of k w"
  "bus_of k (w\<lparr>executingTasks := ex\<rparr>) = bus_of k w"
  "bus_of k (w\<lparr>published := p\<rparr>) = bus_of k w"
  "bus_of k (w\<lparr>trace := tr\<rparr>) = bus_of k w"
  by (simp_all add: bus_of_def)

lemma bus_of_publish [simp]: "bus_of k (publish b ev w) = bus_of k w"
  by (simp add: publish_def)

lemma bus_of_log_call [simp]: "bus_of k (log_call c w) = bus_of k w"
  by (simp add: log_call_def)

lemma bus_of_cancelPendingTools [simp]: "bus_of k (cancelPendingTools k' r w) = bus_of k w"
  by (simp add: cancelPendingTools_def bus_of_update_task)

lemma bus_of_setTaskState [simp]:
  "bus_of k (setTaskStateAndPublishUpdate k' s txt fin w) = bus_of k w"
  by (simp add: setTaskStateAndPublishUpdate_def Let_def bus_of_def publish_def
        split: option.splits)

lemma bus_of_cancelTask [simp]: "bus_of k (cancelTask k' b w) = bus_of k w"
  by (simp add: cancelTask_def Let_def uuidv4_def split: option.splits prod.splits sum.splits)

lemma bus_of_suspend: "suspend hs is (ab, w) = (ab', w') \<Longrightarrow> bus_of k w' = bus_of k w"
  by (induction hs "is" "(ab, w)" arbitrary: ab w rule: suspend.induct) simp_all

lemma bus_of_acceptAgentMessage [simp]: "bus_of k (acceptAgentMessage k' ev w) = bus_of k w"
  by (simp add: acceptAgentMessage_def Let_def split: option.splits)

lemma bus_of_scheduleToolCalls [simp]: "bus_of k (scheduleToolCalls k' rs w) = bus_of k w"
  by (simp add: scheduleToolCalls_def bus_of_update_task)

lemma bus_of_waitForPendingTools:
  "waitForPendingTools k' f w = Some w' \<Longrightarrow> bus_of k w' = bus_of k w"
  by (auto simp: waitForPendingTools_def Let_def bus_of_update_task
        split: option.splits if_splits)

lemma bus_of_getAndClear:
  "getAndClearCompletedTools k' w = (cs, w') \<Longrightarrow> bus_of k w' = bus_of k w"
  by (auto simp: getAndClearCompletedTools_def bus_of_def split: option.splits)

lemma bus_of_addToolResponses [simp]:
  "bus_of k (addToolResponsesToHistory k' cs w) = bus_of k w"
  by (simp add: addToolResponsesToHistory_def bus_of_update_task)

lemma bus_of_consume:
  "consume k' hs its rq (ab, w) = (res, ab', w') \<Longrightarrow> bus_of k w' = bus_of k w"
proof (induction its arbitrary: rq ab w)
  case Nil
  then show ?case by simp
next
  case (Cons it its)
  obtain ab1 w1 where s1: "suspend hs (before it) (ab, w) = (ab1, w1)"
    by (cases "suspend hs (before it) (ab, w)")
  have b1: "bus_of k w1 = bus_of k w" using bus_of_suspend [OF s1] .
  show ?case
  proof (cases ab1)
    case True
    with Cons.prems s1 b1 show ?thesis by simp
  next
    case False
    show ?thesis
    proof (cases "event it")
      case (ToolCallRequest r)
      with Cons.prems s1 False have "consume k' hs its (rq @ [r]) (ab1, w1) = (res, ab', w')"
        by simp
      from Cons.IH [OF this] b1 show ?thesis by simp
    next
      case (Content c)
      obtain ab2 w2 where s2:
        "suspend hs (during (accept it)) (ab1, acceptAgentMessage k' (Content c) w1) = (ab2, w2)"
        by (cases "suspend hs (during (accept it)) (ab1, acceptAgentMessage k' (Content c) w1)")
      have b2: "bus_of k w2 = bus_of k w" using bus_of_suspend [OF s2] b1 by simp
      show ?thesis
      proof (cases "throws (accept it)")
        case None
        with Cons.prems s1 s2 False Content
        have "consume k' hs its rq (ab2, w2) = (res, ab', w')" by simp
        from Cons.IH [OF this] b2 show ?thesis by simp
      next
        case (Some e)
        with Cons.prems s1 s2 False Content b2 show ?thesis by auto
      qed
    qed
  qed
qed

lemma bus_of_turn_step:
  assumes "turn_step k' hs r (ab, w) = (st, ab', w')"
  shows "bus_of k w' = bus_of k w"
proof -
  obtain res ab1 w1 where c: "consume k' hs (items r) [] (ab, w) = (res, ab1, w1)"
    by (cases "consume k' hs (items r) [] (ab, w)")
  have b1: "bus_of k w1 = bus_of k w" using bus_of_consume [OF c] .
  obtain ab2 w2 where s2: "suspend hs (during (stream_end r)) (ab1, w1) = (ab2, w2)"
    by (cases "suspend hs (during (stream_end r)) (ab1, w1)")
  have b2: "bus_of k w2 = bus_of k w" using bus_of_suspend [OF s2] b1 by simp
  obtain ab3 w3 where s3:
    "suspend hs (during (schedule r)) (ab2, scheduleToolCalls k' (projr res) w2) = (ab3, w3)"
    by (cases "suspend hs (during (schedule r)) (ab2, scheduleToolCalls k' (projr res) w2)")
  have b3: "bus_of k w3 = bus_of k w" using bus_of_suspend [OF s3] b2 by simp
  obtain ab4 w4 where s4: "suspend hs (during (tools_wait r)) (ab2, w2) = (ab4, w4)"
    by (cases "suspend hs (during (tools_wait r)) (ab2, w2)")
  have b4: "bus_of k w4 = bus_of k w" using bus_of_suspend [OF s4] b2 by simp
  obtain ab5 w5 where s5: "suspend hs (during (tools_wait r)) (ab3, w3) = (ab5, w5)"
    by (cases "suspend hs (during (tools_wait r)) (ab3, w3)")
  have b5: "bus_of k w5 = bus_of k w" using bus_of_suspend [OF s5] b3 by simp
  show ?thesis
    using assms c s2 s3 s4 s5 b1 b2 b3 b4 b5
    by (auto simp: turn_step_def Let_def
          split: sum.splits option.splits if_splits prod.splits
          dest!: bus_of_waitForPendingTools [where k = k] bus_of_getAndClear [where k = k])
qed

lemma bus_of_turn_loop:
  "turn_loop k' hs ts (ab, w) = Some (out, ab', w') \<Longrightarrow> bus_of k w' = bus_of k w"
proof (induction ts arbitrary: ab w)
  case Nil
  then show ?case by simp
next
  case (Cons r rs)
  obtain st ab1 w1 where t: "turn_step k' hs r (ab, w) = (st, ab1, w1)"
    by (cases "turn_step k' hs r (ab, w)")
  have b1: "bus_of k w1 = bus_of k w" using bus_of_turn_step [OF t] .
  show ?case
  proof (cases st)
    case (Exit x1)
    with Cons.prems t b1 show ?thesis by simp
  next
    case Continue
    with Cons.prems t have "turn_loop k' hs rs (ab1, w1) = Some (out, ab', w')" by simp
    from Cons.IH [OF this] b1 show ?thesis by simp
  next
    case Stuck
    with Cons.prems t show ?thesis by simp
  qed
qed

lemma bus_of_try_block:
  "try_block k' taskId req w = Some (out, ab, w') \<Longrightarrow> bus_of k w' = bus_of k w"
  by (auto simp: try_block_def Let_def dest!: bus_of_turn_loop [where k = k])

lemma bus_of_locate:
  "locate req bus w = Located k taskId w1 \<Longrightarrow> bus_of k w1 = Some (Some bus)"
  by (auto simp: locate_def Let_def bus_of_def update_task_def reconstruct_def createTask_def
        Task_create_def store_save_def
        split: prod.splits option.splits sum.splits if_splits)

subsection \<open>A loop that saw the abort signal ends in the catch block\<close>

lemma turn_step_not_aborted:
  assumes "turn_step k hs r s = (st, ab', w')" and "st = Exit Done \<or> st = Continue"
  shows "\<not> ab'"
  using assms
  by (auto simp: turn_step_def Let_def split: sum.splits option.splits if_splits prod.splits)


text \<open>
  A pass whose tool calls all settle is not stuck; so a pass at whose end the abort
  signal has fired, and whose tool calls all settle, ends the loop with a throw.
\<close>

lemma waitForPendingTools_settles:
  assumes "\<forall>c. outcome c \<noteq> Pending"
  shows "waitForPendingTools k outcome w \<noteq> None"
  using assms
  by (auto simp: waitForPendingTools_def Let_def update_task_def log_call_def list_ex_iff
        is_pending_def settle_tool_def split: option.splits)

lemma turn_step_stuck:
  "turn_step k hs r s = (Stuck, ab, w) \<Longrightarrow> waitForPendingTools k (settle r) w = None"
  by (auto simp: turn_step_def Let_def split: sum.splits option.splits if_splits prod.splits)

lemma turn_step_settles:
  assumes "\<forall>c. settle r c \<noteq> Pending"
  shows "fst (turn_step k hs r s) \<noteq> Stuck"
proof
  assume a: "fst (turn_step k hs r s) = Stuck"
  obtain ab w where "turn_step k hs r s = (Stuck, ab, w)"
    using a by (cases "turn_step k hs r s") auto
  from turn_step_stuck [OF this] waitForPendingTools_settles [OF assms, of k w]
  show False by simp
qed

lemma turn_loop_abort_ends:
  assumes t: "turn_step k hs r s = (st, True, w')" and f: "\<forall>c. settle r c \<noteq> Pending"
  shows "\<exists>e. turn_loop k hs (r # rs) s = Some (Thrown e, True, w')"
proof (cases st)
  case (Exit out)
  with turn_step_not_aborted [OF t] obtain e where "out = Thrown e" by (cases out) auto
  with t Exit show ?thesis by simp
next
  case Continue
  with turn_step_not_aborted [OF t] show ?thesis by simp
next
  case Stuck
  with turn_step_settles [OF f, of k hs s] t show ?thesis by simp
qed

subsection \<open>What a cancel request and the resolution of ids leave alone\<close>

lemma trace_cancelTask [simp]: "trace (cancelTask k b w) = trace w"
  by (simp add: cancelTask_def Let_def task_defs split: option.splits prod.splits sum.splits)

lemma executing_cancelTask [simp]: "executingTasks (cancelTask k b w) = executingTasks w"
  by (simp add: cancelTask_def Let_def task_defs split: option.splits prod.splits sum.splits)

lemma suspend_frame:
  "suspend hs is (ab, w) = (ab', w') \<Longrightarrow>
     trace w' = trace w \<and> executingTasks w' = executingTasks w"
  by (induction hs "is" "(ab, w)" arbitrary: ab w rule: suspend.induct) simp_all

lemma absorb_frame:
  "absorb hs its (ab, w) = (ab', w') \<Longrightarrow>
     trace w' = trace w \<and> executingTasks w' = executingTasks w"
proof (induction its arbitrary: ab w)
  case Nil
  then show ?case by simp
next
  case (Cons it its)
  obtain ab1 w1 where s1: "suspend hs (before it) (ab, w) = (ab1, w1)"
    by (cases "suspend hs (before it) (ab, w)")
  with Cons.prems have "absorb hs its (ab1, w1) = (ab', w')" by simp
  from Cons.IH [OF this] suspend_frame [OF s1] show ?case by simp
qed

lemma resolve_id_frame:
  "resolve_id a b w = (i, w') \<Longrightarrow>
     tasks w' = tasks w \<and> executingTasks w' = executingTasks w \<and> trace w' = trace w
     \<and> published w' = published w \<and> taskStore w' = taskStore w"
  by (auto simp: resolve_id_def uuidv4_def split: option.splits if_splits)

text \<open>A task found in the registry is taken from there; only its event bus is set.\<close>

lemma locate_in_memory:
  assumes rid: "fst (resolve_taskId req w) = taskId"
      and reg: "tasks w taskId = Some t"
  shows "\<exists>w'. locate req bus w = Located taskId taskId w'
           \<and> tasks w' = (tasks w)(taskId \<mapsto> t\<lparr>eventBus := Some bus\<rparr>)
           \<and> published w' = published w \<and> trace w' = trace w
           \<and> executingTasks w' = executingTasks w \<and> taskStore w' = taskStore w"
proof -
  obtain w1 where r1: "resolve_taskId req w = (taskId, w1)"
    using rid by (cases "resolve_taskId req w") simp
  obtain cid w2 where r2: "resolve_contextId req w1 = (cid, w2)"
    by (cases "resolve_contextId req w1")
  have f1: "tasks w1 = tasks w" "executingTasks w1 = executingTasks w" "trace w1 = trace w"
       "published w1 = published w" "taskStore w1 = taskStore w"
    using resolve_id_frame [OF r1 [unfolded resolve_taskId_def]] by simp_all
  have f2: "tasks w2 = tasks w1" "executingTasks w2 = executingTasks w1" "trace w2 = trace w1"
       "published w2 = published w1" "taskStore w2 = taskStore w1"
    using resolve_id_frame [OF r2 [unfolded resolve_contextId_def]] by simp_all
  show ?thesis
    using r1 r2 reg f1 f2 by (simp add: locate_def update_task_def)
qed

text \<open>
  \<^verbatim>\<open>execute\<close> on a task of the registry that is canceled, failed or completed sets the
  event bus of the task and returns: no call on the task, no event, no change of its
  state or of its tool calls.
\<close>

lemma execute_terminal_ignored:
  assumes rid: "fst (resolve_taskId req w) = taskId"
      and reg: "tasks w taskId = Some t"
      and tm: "terminal (taskState t)"
  shows "\<exists>w'. execute req bus w = Some (Returned w')
           \<and> tasks w' = (tasks w)(taskId \<mapsto> t\<lparr>eventBus := Some bus\<rparr>)
           \<and> published w' = published w \<and> trace w' = trace w
           \<and> executingTasks w' = executingTasks w \<and> taskStore w' = taskStore w"
proof -
  from locate_in_memory [OF rid reg, of bus] obtain w' where
    loc: "locate req bus w = Located taskId taskId w'"
    and f: "tasks w' = (tasks w)(taskId \<mapsto> t\<lparr>eventBus := Some bus\<rparr>)"
       "published w' = published w" "trace w' = trace w"
       "executingTasks w' = executingTasks w" "taskStore w' = taskStore w"
    by blast
  have "proceed taskId taskId req bus w' = Some (Returned w')"
    using f tm by (simp add: proceed_def)
  with loc f show ?thesis by (simp add: execute_def)
qed

text \<open>
  \<^verbatim>\<open>cancelTask\<close> on a task that is canceled or failed publishes the state it has, on
  the bus of the cancel request, and changes nothing else but the count of uuids.
\<close>

lemma cancelTask_canceled_or_failed:
  assumes "tasks w taskId = Some t" "taskState t = Canceled \<or> taskState t = Failed"
  shows "cancelTask taskId bus w =
           w\<lparr>published := published w @
                [(bus, \<lparr>su_taskId = taskId, su_contextId = task_contextId t,
                        su_state = taskState t,
                        su_text = Some (''Task '' @ taskId @ '' is already ''
                                          @ state_name (taskState t) @ ''.''),
                        su_messageId = Some (uuids w (uuid_ctr w)), su_final = True\<rparr>)],
              uuid_ctr := Suc (uuid_ctr w)\<rparr>"
  using assms by (auto simp: cancelTask_def uuidv4_def publish_def)

lemma proceed_main:
  assumes "state_of k w1 = Some s" "\<not> terminal s" "taskId \<notin> executingTasks w1"
  shows "proceed k taskId req bus w1 = map_option Returned (main_execution k taskId req w1)"
  using assms by (auto simp: proceed_def state_of_def split: option.splits)

text \<open>
  \<^verbatim>\<open>execute\<close> throws only from \<^verbatim>\<open>createTask\<close> (inside \<open>locate\<close>) and from the
  branch for a task with a pending execution; the main execution always returns.
\<close>

lemma execute_raises:
  assumes "execute req bus w = Some (Raised e w')"
  shows "locate req bus w = Finished (Raised e w')
         \<or> (\<exists>k taskId w1. locate req bus w = Located k taskId w1
               \<and> taskId \<in> executingTasks w1 \<and> join k req bus w1 = Some (Raised e w'))"
proof (cases "locate req bus w")
  case (Finished r)
  with assms show ?thesis by (simp add: execute_def)
next
  case (Located k taskId w1)
  with assms have "proceed k taskId req bus w1 = Some (Raised e w')"
    by (simp add: execute_def)
  then have "taskId \<in> executingTasks w1 \<and> join k req bus w1 = Some (Raised e w')"
    by (auto simp: proceed_def split: option.splits if_splits)
  with Located show ?thesis by simp
qed

lemma join_returns:
  assumes "turns req = r # rs" "throws (stream_end r) = None"
  shows "\<exists>w'. join k req bus w = Some (Returned w') \<and> executingTasks w' = executingTasks w
            \<and> trace w' = trace w @ [AcceptUserMessage k (messageId (userMessage req))]"
proof -
  let ?w0 = "log_call (AcceptUserMessage k (messageId (userMessage req)))
               (update_task k (\<lambda>t. t\<lparr>eventBus := Some bus\<rparr>) w)"
  have f0: "trace ?w0 = trace w @ [AcceptUserMessage k (messageId (userMessage req))]"
           "executingTasks ?w0 = executingTasks w"
    by (simp_all add: log_call_def update_task_def split: option.splits)
  obtain ab1 w1 where a: "absorb (has_socket req) (items r) (False, ?w0) = (ab1, w1)"
    by (cases "absorb (has_socket req) (items r) (False, ?w0)")
  obtain ab2 w2 where s:
    "suspend (has_socket req) (during (stream_end r)) (ab1, w1) = (ab2, w2)"
    by (cases "suspend (has_socket req) (during (stream_end r)) (ab1, w1)")
  have "join k req bus w = Some (Returned w2)"
    using assms a s by (simp add: join_def Let_def)
  with absorb_frame [OF a] suspend_frame [OF s] f0 show ?thesis by simp
qed







subsection \<open>No final event for a task before its loop is over, unless it was cancelled\<close>






lemma quiet_since_ex: "quiet_since fg bus k w0 w \<Longrightarrow> tasks w k \<noteq> None"
  by (auto simp: quiet_since_def bus_of_def)



lemma ids_update_task:
  "(\<And>t. task_id (f t) = task_id t) \<Longrightarrow>
     map_option task_id (tasks (update_task k' f w) j) = map_option task_id (tasks w j)"
  by (simp add: update_task_def split: option.splits)

lemma state_update_task:
  "(\<And>t. taskState (f t) = taskState t) \<Longrightarrow> state_of k (update_task k' f w) = state_of k w"
  by (simp add: update_task_def state_of_def split: option.splits)












section \<open>Lemmas about the durable store\<close>

lemmas path_defs =
  getTaskPath_def getIndexPath_def getContextHistoryPath_def
  getContextIdIndexPath_def getTaskObjectPath_def getWorkspaceObjectPath_def

text \<open>
  Whatever the identifiers are, the path of a context log differs from the three paths
  of a task: the index path starts differently, the other two end differently.
\<close>

lemma index_not_history: "getIndexPath t \<noteq> getContextHistoryPath c"
  by (simp add: path_defs)

lemma task_path_not_history: "getTaskPath c t ''task.json'' \<noteq> getContextHistoryPath c'"
proof
  assume "getTaskPath c t ''task.json'' = getContextHistoryPath c'"
  then have "rev (getTaskPath c t ''task.json'') = rev (getContextHistoryPath c')" by simp
  then show False by (simp add: path_defs)
qed

lemma workspace_path_not_history:
  "getTaskPath c t ''workspace.tar.gz'' \<noteq> getContextHistoryPath c'"
proof
  assume "getTaskPath c t ''workspace.tar.gz'' = getContextHistoryPath c'"
  then have "rev (getTaskPath c t ''workspace.tar.gz'') = rev (getContextHistoryPath c')"
    by simp
  then show False by (simp add: path_defs)
qed

lemmas history_path_distinct =
  index_not_history task_path_not_history workspace_path_not_history
  index_not_history [THEN not_sym] task_path_not_history [THEN not_sym]
  workspace_path_not_history [THEN not_sym]

lemma download_append:
  "p \<notin> fst ` set xs \<Longrightarrow> download p (b @ xs) = download p b"
  by (simp add: download_def map_add_def map_of_eq_None_iff [THEN iffD2] split: option.splits)

lemma read_history_append:
  "p \<notin> fst ` set xs \<Longrightarrow> read_history p (b @ xs) = read_history p b"
  by (simp add: read_history_def download_append)

lemma save_A_writes:
  assumes "sdk_contextId task \<noteq> []"
      and "archive_ok workDir"
      and "read_history (getContextHistoryPath (sdk_contextId task)) b = Messages log"
  shows "save_A workDir task b =
           Inr (b @ [(getTaskPath (sdk_contextId task) (sdk_id task) ''task.json'', Json_task task)]
                  @ archive_part workDir
                      (getTaskPath (sdk_contextId task) (sdk_id task) ''workspace.tar.gz'')
                  @ [(getIndexPath (sdk_id task), Text (sdk_contextId task))]
                  @ history_part (getContextHistoryPath (sdk_contextId task)) log task)"
  using assms
  by (cases "sdk_history task = []")
     (auto simp: save_A_def Let_def history_part_def new_messages_def archive_part_def
        archive_ok_def file_save_def read_history_append history_path_distinct)




lemma getContextHistory_read:
  "getContextHistory c b = Inr (Messages log) \<Longrightarrow>
     read_history (getContextHistoryPath c) b = Messages log"
  by (auto simp: getContextHistory_def read_history_def split: option.splits blob.splits)

text \<open>After a save the log is the old log followed by the new messages of the task.\<close>

lemma save_A_log:
  assumes c: "sdk_contextId task \<noteq> []"
      and log: "getContextHistory (sdk_contextId task) b = Inr (Messages log)"
      and tar: "archive_ok workDir"
  shows "\<exists>b'. save_A workDir task b = Inr b'
           \<and> getContextHistory (sdk_contextId task) b'
               = Inr (Messages (log @ new_messages log (sdk_history task)))"
proof (cases "new_messages log (sdk_history task) = []")
  case True
  have "download (getContextHistoryPath (sdk_contextId task))
          (b @ (getTaskPath (sdk_contextId task) (sdk_id task) ''task.json'', Json_task task)
             # archive_part workDir
                 (getTaskPath (sdk_contextId task) (sdk_id task) ''workspace.tar.gz'')
             @ [(getIndexPath (sdk_id task), Text (sdk_contextId task))])
        = download (getContextHistoryPath (sdk_contextId task)) b"
    by (rule download_append) (auto simp: archive_part_def history_path_distinct)
  with True log show ?thesis
    by (simp add: save_A_writes [OF c tar getContextHistory_read [OF log]] history_part_def
          getContextHistory_def)
next
  case False
  then show ?thesis
    by (simp add: save_A_writes [OF c tar getContextHistory_read [OF log]] history_part_def
          getContextHistory_def download_def)
qed

lemma new_messages_known:
  "i \<in> messageId ` set log \<Longrightarrow> filter (\<lambda>m. messageId m = i) (new_messages log h) = []"
  by (auto simp: new_messages_def filter_empty_conv)

lemma new_messages_again: "new_messages (log @ new_messages log h) h = []"
  by (auto simp: new_messages_def filter_empty_conv)

lemma save_A_Inr_context: "save_A workDir task b = Inr b' \<Longrightarrow> sdk_contextId task \<noteq> []"
  by (auto simp: save_A_def Let_def)

lemma save_A_Inr_archive: "save_A workDir task b = Inr b' \<Longrightarrow> archive_ok workDir"
  by (auto simp: save_A_def Let_def archive_ok_def split: if_splits)

text \<open>Saving the same task once more leaves the log as it is.\<close>

lemma save_A_twice:
  assumes log: "getContextHistory (sdk_contextId task) b = Inr (Messages log)"
      and sv: "save_A workDir task b = Inr b'"
      and tar': "archive_ok workDir'"
  shows "\<exists>b''. save_A workDir' task b' = Inr b''
           \<and> getContextHistory (sdk_contextId task) b''
               = getContextHistory (sdk_contextId task) b'"
proof -
  have c: "sdk_contextId task \<noteq> []" using sv by (rule save_A_Inr_context)
  have tar: "archive_ok workDir" using sv by (rule save_A_Inr_archive)
  from save_A_log [OF c log tar] sv
  have l1: "getContextHistory (sdk_contextId task) b'
              = Inr (Messages (log @ new_messages log (sdk_history task)))" by simp
  from save_A_log [OF c l1 tar'] show ?thesis
    by (auto simp: l1 new_messages_again)
qed

section \<open>The claims about the executor\<close>

text \<open>
  C1.  The claim: once a task is completed, canceled or failed, no operation of the
  engine schedules tools or changes its state; \<^verbatim>\<open>execute\<close> is a no-op and
  \<^verbatim>\<open>cancelTask\<close> neither changes the state nor cancels tools.  For \<^verbatim>\<open>execute\<close> this
  is lemma \<open>execute_terminal_ignored\<close>, and for \<^verbatim>\<open>cancelTask\<close> on a canceled or
  failed task it is lemma \<open>cancelTask_canceled_or_failed\<close>.  The guard of
  \<^verbatim>\<open>cancelTask\<close> leaves out \<^verbatim>\<open>completed\<close>, which the guard of \<^verbatim>\<open>execute\<close> has:
  on a completed task with a waiting tool call, \<^verbatim>\<open>cancelTask\<close> cancels the call and
  moves the task to \<^verbatim>\<open>canceled\<close>.
\<close>

theorem cancelTask_completed_changes_state:
  "state_of ''T1'' completed_engine = Some Completed
   \<and> terminal Completed
   \<and> state_of ''T1'' (cancelTask ''T1'' 9 completed_engine) = Some Canceled
   \<and> map_option (map tc_status \<circ> pendingTools) (tasks completed_engine ''T1'')
       = Some [Pending]
   \<and> map_option (map tc_status \<circ> pendingTools)
        (tasks (cancelTask ''T1'' 9 completed_engine) ''T1'') = Some [Cancelled]"
  by (simp add: example_defs terminal_def cancelTask_def task_defs Let_def)




text \<open>
  C3.  When the turn loop throws and the abort signal has not fired, \<^verbatim>\<open>execute\<close>
  returns: the error does not pass the executor (lemma \<open>execute_raises\<close>: what
  \<^verbatim>\<open>execute\<close> throws never comes from the turn loop).  Every tool call of the task that was
  still pending is cancelled with the message of the error as the reason (the message
  of an \<^verbatim>\<open>Error\<close>, else \<^verbatim>\<open>Agent execution error\<close>), the task is failed, and, unless
  it was failed already, exactly one event is published from then on, on the bus of
  the call: a final \<^verbatim>\<open>failed\<close> status event with that message as its text.
\<close>

theorem turn_loop_error_handled:
  assumes loc: "locate req bus w = Located k taskId w1"
    and st: "state_of k w1 = Some s" "\<not> terminal s"
    and ex: "taskId \<notin> executingTasks w1"
    and thr: "try_block k taskId req w1 = Some (Thrown e, False, w2)"
  shows "\<exists>w3 t2. execute req bus w = Some (Returned w3) \<and> tasks w2 k = Some t2
           \<and> map_option pendingTools (tasks w3 k)
               = Some (map (cancel_tool (error_message e ''Agent execution error''))
                         (pendingTools t2))
           \<and> state_of k w3 = Some Failed
           \<and> published w3 = published w2 @
                (if taskState t2 = Failed then []
                 else [(bus, \<lparr>su_taskId = task_id t2, su_contextId = task_contextId t2,
                               su_state = Failed,
                               su_text = Some (error_message e ''Agent execution error''),
                               su_messageId = None, su_final = True\<rparr>)])
           \<and> taskId \<notin> executingTasks w3"
proof -
  have "bus_of k w2 = Some (Some bus)"
    using bus_of_try_block [OF thr] bus_of_locate [OF loc] by simp
  then obtain t2 where t2: "tasks w2 k = Some t2" "eventBus t2 = Some bus"
    by (auto simp: bus_of_def)
  have run: "execute req bus w
               = Some (Returned (finally_block taskId (on_error k False e w2)))"
    using loc thr proceed_main [OF st ex, of req bus]
    by (simp add: execute_def main_execution_def)
  show ?thesis
    using t2 unfolding run
    by (simp add: on_error_def cancelPendingTools_def update_task_def state_of_def
          setTaskStateAndPublishUpdate_def publish_def finally_block_def Let_def)
qed

theorem turn_loop_error_handled_witness:
  "\<exists>w1 w2 w3.
     locate failing_request 7 idle_engine = Located ''T1'' ''T1'' w1
     \<and> state_of ''T1'' w1 = Some InputRequired
     \<and> ''T1'' \<notin> executingTasks w1
     \<and> try_block ''T1'' ''T1'' failing_request w1
         = Some (Thrown (JsError ''model unavailable''), False, w2)
     \<and> execute failing_request 7 idle_engine = Some (Returned w3)
     \<and> state_of ''T1'' w3 = Some Failed
     \<and> map_option (map tc_reason \<circ> pendingTools) (tasks w3 ''T1'')
         = Some [Some ''model unavailable'']
     \<and> published w3 = published w2 @
         [(7, \<lparr>su_taskId = ''T1'', su_contextId = ''C1'', su_state = Failed,
                su_text = Some ''model unavailable'', su_messageId = None,
                su_final = True\<rparr>)]"
proof -
  define w1 where "w1 = update_task ''T1'' (\<lambda>t. t\<lparr>eventBus := Some 7\<rparr>) idle_engine"
  have loc: "locate failing_request 7 idle_engine = Located ''T1'' ''T1'' w1"
    by (simp add: w1_def locate_def resolve_defs example_defs update_task_def)
  have st: "state_of ''T1'' w1 = Some InputRequired"
    by (simp add: w1_def example_defs task_defs)
  have nt: "\<not> terminal InputRequired"
    by (simp add: terminal_def)
  have ex: "''T1'' \<notin> executingTasks w1"
    by (simp add: w1_def example_defs task_defs)
  have "\<exists>w2. try_block ''T1'' ''T1'' failing_request w1
                = Some (Thrown (JsError ''model unavailable''), False, w2)
              \<and> tasks w2 ''T1'' = Some (idle_task\<lparr>eventBus := Some 7\<rparr>)"
    by (simp add: w1_def try_block_def turn_step_def example_defs task_defs Let_def)
  then obtain w2 where
    thr: "try_block ''T1'' ''T1'' failing_request w1
            = Some (Thrown (JsError ''model unavailable''), False, w2)"
    and t2: "tasks w2 ''T1'' = Some (idle_task\<lparr>eventBus := Some 7\<rparr>)"
    by blast
  from turn_loop_error_handled [OF loc st nt ex thr] t2 loc st ex thr
  show ?thesis
    by (auto simp: example_defs cancel_tool_def error_message_def)
qed




text \<open>
  C5.  When the task id is not in the registry, \<^verbatim>\<open>cancelTask\<close> publishes one event on
  the bus it was given, and changes nothing else but the count of uuids drawn: a
  \<^verbatim>\<open>failed\<close> status event with the final flag set whose text names the task id.  The
  call returns; nothing is thrown.
\<close>

theorem cancelTask_unknown_id:
  "tasks w taskId = None \<Longrightarrow>
   cancelTask taskId bus w =
     w\<lparr>published := published w @
          [(bus, \<lparr>su_taskId = taskId, su_contextId = uuids w (uuid_ctr w), su_state = Failed,
                  su_text = Some (''Task '' @ taskId @ '' not found.''),
                  su_messageId = Some (uuids w (Suc (uuid_ctr w))), su_final = True\<rparr>)],
        uuid_ctr := Suc (Suc (uuid_ctr w))\<rparr>"
  by (simp add: cancelTask_def uuidv4_def publish_def)

theorem cancelTask_unknown_id_witness:
  "tasks empty_engine ''T9'' = None
   \<and> published (cancelTask ''T9'' 3 empty_engine) =
       [(3, \<lparr>su_taskId = ''T9'', su_contextId = ''u'', su_state = Failed,
              su_text = Some ''Task T9 not found.'', su_messageId = Some ''uu'',
              su_final = True\<rparr>)]"
proof -
  have unknown: "tasks empty_engine ''T9'' = None"
    by (simp add: empty_engine_def)
  show ?thesis
    using unknown cancelTask_unknown_id [OF unknown, of 3]
    by (simp add: empty_engine_def)
qed

text \<open>
  C6.  The claim: \<^verbatim>\<open>cancelTask\<close> on a task in a final state publishes that state once
  more, as a final status event, and leaves the task as it is.  For canceled and failed
  tasks this is lemma \<open>cancelTask_canceled_or_failed\<close>.  For a completed task the
  event that \<^verbatim>\<open>cancelTask\<close> publishes says \<^verbatim>\<open>canceled\<close>, not \<^verbatim>\<open>completed\<close>, and it
  goes out on the bus of the task (7 here), not on the bus of the cancel request (9).
\<close>

theorem cancelTask_completed_publishes_canceled:
  "state_of ''T1'' completed_engine = Some Completed
   \<and> published (cancelTask ''T1'' 9 completed_engine) =
       [(7, \<lparr>su_taskId = ''T1'', su_contextId = ''C1'', su_state = Canceled,
              su_text = Some ''Task canceled by user request.'', su_messageId = None,
              su_final = True\<rparr>)]"
  by (simp add: example_defs cancelTask_def task_defs Let_def)

text \<open>
  C10.  The two identifiers of a request are resolved with opposite precedence.  The
  task id is the id of the persisted task snapshot of the request when that is present
  (defined and not empty, which is what \<^verbatim>\<open>||\<close> tests), else the \<^verbatim>\<open>taskId\<close> of
  the user message when that is present, else a fresh uuid.  The context id is the
  \<^verbatim>\<open>contextId\<close> of the user message when present, else the context id of the snapshot
  when present, else a fresh uuid.  In particular, when the snapshot and the message
  both carry identifiers, the task id is the snapshot's and the context id is the
  message's.  \<open>w\<close> is the state in which \<^verbatim>\<open>execute\<close> is called; the context id is
  resolved in the state that the resolution of the task id leaves.
\<close>

theorem execute_id_precedence:
  "Some (fst (resolve_taskId req w)) =
     (if truthy (map_option sdk_id (req_task req)) then map_option sdk_id (req_task req)
      else if truthy (msg_taskId (userMessage req)) then msg_taskId (userMessage req)
      else Some (uuids w (uuid_ctr w)))
   \<and> Some (fst (resolve_contextId req (snd (resolve_taskId req w)))) =
     (if truthy (msg_contextId (userMessage req)) then msg_contextId (userMessage req)
      else if truthy (map_option sdk_contextId (req_task req))
           then map_option sdk_contextId (req_task req)
      else Some (uuids w (uuid_ctr (snd (resolve_taskId req w)))))
   \<and> (truthy (map_option sdk_id (req_task req)) \<and> truthy (msg_contextId (userMessage req))
        \<longrightarrow> Some (fst (resolve_taskId req w)) = map_option sdk_id (req_task req)
          \<and> Some (fst (resolve_contextId req (snd (resolve_taskId req w))))
              = msg_contextId (userMessage req))"
  by (auto simp: resolve_taskId_def resolve_contextId_def resolve_id_def or_else_def
        truthy_def uuidv4_def split: option.splits)

theorem execute_id_precedence_witness:
  "truthy (map_option sdk_id (req_task followup_request))
   \<and> truthy (msg_contextId (userMessage followup_request))
   \<and> fst (resolve_taskId followup_request empty_engine) = ''T1''
   \<and> fst (resolve_contextId followup_request
             (snd (resolve_taskId followup_request empty_engine))) = ''C2''"
  using execute_id_precedence [of followup_request empty_engine]
  by (simp add: followup_request_def followup_message_def snapshot_T1_def truthy_def)

section \<open>The claims about the durable store\<close>




text \<open>
  C8, as the claim states it, fails on the first listing: when the index entry is there
  and the snapshot is not, its \<^verbatim>\<open>load\<close> logs an error and returns \<^verbatim>\<open>undefined\<close>,
  the result it also gives for a task that was never saved.
\<close>

theorem load_A_dangling_index_counterexample:
  "download (getIndexPath ''T1'') [(''tasks/T1/contextId.txt'', Text ''C1'')] = Some (Text ''C1'')
   \<and> download (getTaskPath ''C1'' ''T1'' ''task.json'')
        [(''tasks/T1/contextId.txt'', Text ''C1'')] = None
   \<and> load_A ''T1'' [(''tasks/T1/contextId.txt'', Text ''C1'')] = Inr None"
  by (simp add: load_A_def path_defs download_def)

text \<open>
  C8, amended.  When the index entry of a task id is absent, the \<^verbatim>\<open>load\<close> of either
  listing returns "not found" and throws nothing.  When the index entry is there and the
  snapshot it points to is not, the \<^verbatim>\<open>load\<close> of the second listing throws the error
  \<^verbatim>\<open>Inconsistent state: Task object not found for task ...\<close>, and the \<^verbatim>\<open>load\<close> of the
  first listing returns "not found".
\<close>

theorem load_missing_objects:
  "(download (getIndexPath taskId) b = None \<longrightarrow>
      load_A taskId b = Inr None \<and> load_B taskId b = Inr None)
   \<and> (download (getIndexPath taskId) b = Some (Text contextId)
        \<and> download (getTaskPath contextId taskId ''task.json'') b = None \<longrightarrow>
      load_B taskId b
        = Inl (JsError (''Inconsistent state: Task object not found for task '' @ taskId))
      \<and> load_A taskId b = Inr None)"
  by (simp add: load_A_def load_B_def path_defs)

theorem load_missing_objects_witness:
  "download (getIndexPath ''T1'') [] = None
   \<and> load_A ''T1'' [] = Inr None
   \<and> load_B ''T1'' [] = Inr None
   \<and> download (getIndexPath ''T1'') [(''tasks/T1/contextId.txt'', Text ''C1'')]
       = Some (Text ''C1'')
   \<and> download (getTaskPath ''C1'' ''T1'' ''task.json'')
        [(''tasks/T1/contextId.txt'', Text ''C1'')] = None
   \<and> load_B ''T1'' [(''tasks/T1/contextId.txt'', Text ''C1'')]
       = Inl (JsError ''Inconsistent state: Task object not found for task T1'')"
proof -
  have a: "download (getIndexPath ''T1'') [] = None"
    by (simp add: download_def)
  have i: "download (getIndexPath ''T1'') [(''tasks/T1/contextId.txt'', Text ''C1'')]
             = Some (Text ''C1'')"
    by (simp add: download_def path_defs)
  have t: "download (getTaskPath ''C1'' ''T1'' ''task.json'')
             [(''tasks/T1/contextId.txt'', Text ''C1'')] = None"
    by (simp add: download_def path_defs)
  from load_missing_objects [of "''T1''" "[]" "''C1''"]
       load_missing_objects [of "''T1''" "[(''tasks/T1/contextId.txt'', Text ''C1'')]" "''C1''"]
       a i t
  show ?thesis by simp
qed

text \<open>
  C9.  In the listing that keeps a context log: when a message id is in the log of the
  context of a task, a save of that task that succeeds leaves the messages with that id
  in the log exactly as they were, whatever the history of the task holds; no second
  copy is added.  (Lemma \<open>save_A_twice\<close>: saving the same task again changes nothing in
  the log.)
\<close>

theorem context_log_append_idempotent:
  assumes log: "getContextHistory (sdk_contextId task) b = Inr (Messages log)"
      and i: "i \<in> messageId ` set log"
      and sv: "save_A workDir task b = Inr b'"
  shows "\<exists>log'. getContextHistory (sdk_contextId task) b' = Inr (Messages log')
           \<and> filter (\<lambda>m. messageId m = i) log' = filter (\<lambda>m. messageId m = i) log"
  using save_A_log [OF save_A_Inr_context [OF sv] log save_A_Inr_archive [OF sv]] sv
    new_messages_known [OF i]
  by auto

theorem context_log_append_idempotent_witness:
  "\<exists>b1 b2.
     save_A full_workdir saved_task [] = Inr b1
     \<and> getContextHistory ''C1'' b1 = Inr (Messages [hello_message])
     \<and> ''m1'' \<in> messageId ` set [hello_message]
     \<and> save_A full_workdir saved_task b1 = Inr b2
     \<and> getContextHistory ''C1'' b2 = Inr (Messages [hello_message])"
proof -
  have c: "sdk_contextId saved_task = ''C1''"
    by (simp add: example_defs)
  have e: "getContextHistory (sdk_contextId saved_task) [] = Inr (Messages [])"
    by (simp add: getContextHistory_def download_def)
  have t: "archive_ok full_workdir"
    by (simp add: archive_ok_def example_defs)
  from save_A_log [OF _ e t] obtain b1 where
    s1: "save_A full_workdir saved_task [] = Inr b1"
    and l1: "getContextHistory (sdk_contextId saved_task) b1 = Inr (Messages [hello_message])"
    by (auto simp: new_messages_def example_defs)
  have i: "''m1'' \<in> messageId ` set [hello_message]"
    by (simp add: example_defs)
  from save_A_twice [OF e s1 t] obtain b2 where
    s2: "save_A full_workdir saved_task b1 = Inr b2"
    by blast
  from context_log_append_idempotent [OF l1 i s2] obtain log' where
    l2: "getContextHistory (sdk_contextId saved_task) b2 = Inr (Messages log')"
    and f: "filter (\<lambda>m. messageId m = ''m1'') log'
              = filter (\<lambda>m. messageId m = ''m1'') [hello_message]"
    by blast
  from save_A_twice [OF e s1 t] s2 l1 l2
  have "log' = [hello_message]" by simp
  with s1 l1 i s2 l2 c show ?thesis by auto
qed

end
